theory Spec2Isabelle
  imports Main
begin

section \<open>The uncaught-exception handler (makeErrorHandler)\<close>

text \<open>
  The handler that \<open>makeErrorHandler(client, options)\<close> returns is a closure over four
  variables (\<open>caughtFirstError\<close>, \<open>caughtSecondError\<close>, \<open>calledFatalError\<close>,
  \<open>firstError\<close>), the bound \<open>client\<close> and the two option objects. Each call reads the
  process (its registered listeners, the active client, the fields of the option
  objects), updates the four variables and calls out: to \<open>captureException\<close>, to the
  fatal-error callback, to the logger and to \<open>setTimeout\<close>. The model passes the four
  variables as a record, takes what the call reads as an \<open>env\<close> record, and returns the
  calls it makes as a list of effects, in order.

  Errors, user callbacks and clients are opaque to the handler: it stores, compares and
  passes them on. They are represented by identifiers.
\<close>

type_synonym js_error = string
type_synonym callback_id = string
type_synonym client_id = nat

text \<open>
  The value of the local variable \<open>onFatalError\<close>: the imported \<open>logAndExitProcess\<close>, or
  a function supplied by the user.
\<close>

datatype OnFatalErrorHandler = LogAndExitProcess | UserCallback callback_id

record OnUncaughtExceptionOptions =
  exitEvenIfOtherHandlersAreRegistered :: bool
  onFatalError :: "callback_id option"

text \<open>
  A listener of the \<open>uncaughtException\<close> event, as far as the handler inspects it: the
  function's \<open>name\<close>, its optional \<open>tag\<close> property and whether its \<open>_errorHandler\<close>
  property is truthy.
\<close>

record TaggedListener =
  listener_name :: string
  listener_tag :: "string option"
  listener_errorHandler :: bool

text \<open>
  What one call of the handler reads from outside its closure. The option objects are
  held by reference and their fields are read at each call, so their contents belong
  here. \<open>DEBUG_BUILD\<close> is a constant of a module that is not part of the sources at hand;
  it is a parameter.
\<close>

record env =
  options :: OnUncaughtExceptionOptions
  clientOptions_onFatalError :: "callback_id option"
  listeners :: "TaggedListener list"
  getClient :: "client_id option"
  DEBUG_BUILD :: bool

record handler_state =
  caughtFirstError :: bool
  caughtSecondError :: bool
  calledFatalError :: bool
  firstError :: "js_error option"

text \<open>The second argument of \<open>captureException\<close>.\<close>

record capture_hint =
  originalException :: js_error
  captureContext_level :: string
  mechanism_handled :: bool
  mechanism_type :: string

text \<open>
  The variables the callback given to \<open>setTimeout\<close> captures from the call that
  creates it: that call's \<open>error\<close> and its local \<open>onFatalError\<close>.
\<close>

record timer_closure =
  tc_error :: js_error
  tc_onFatalError :: OnFatalErrorHandler

text \<open>
  The calls the handler makes. \<open>CallFatal f a b\<close> is the call \<open>f(a, b)\<close> of a fatal-error
  function; an argument that is \<open>undefined\<close> or not passed is \<open>None\<close>.
\<close>

datatype effect =
    CaptureException js_error capture_hint
  | LoggerWarn string
  | CallFatal OnFatalErrorHandler "js_error option" "js_error option"
  | SetTimeout timer_closure nat

definition timeout :: nat where
  "timeout = 2000"

definition makeErrorHandler :: handler_state where
  "makeErrorHandler =
     \<lparr>caughtFirstError = False, caughtSecondError = False, calledFatalError = False,
      firstError = None\<rparr>"

definition resolveOnFatalError :: "env \<Rightarrow> OnFatalErrorHandler" where
  "resolveOnFatalError w =
     (case onFatalError (options w) of
        Some f \<Rightarrow> UserCallback f
      | None \<Rightarrow>
          (case clientOptions_onFatalError w of
             Some f \<Rightarrow> UserCallback f
           | None \<Rightarrow> LogAndExitProcess))"

definition ignoredListener :: "TaggedListener \<Rightarrow> bool" where
  "ignoredListener l \<longleftrightarrow>
     listener_name l = ''domainUncaughtExceptionClear''
     \<or> listener_tag l = Some ''sentry_tracingErrorCallback''
     \<or> listener_errorHandler l"

definition userProvidedListenersCount :: "TaggedListener list \<Rightarrow> nat" where
  "userProvidedListenersCount ls =
     foldl (\<lambda>acc listener. if ignoredListener listener then acc else acc + 1) 0 ls"

definition processWouldExit :: "env \<Rightarrow> bool" where
  "processWouldExit w \<longleftrightarrow> userProvidedListenersCount (listeners w) = 0"

definition shouldApplyFatalHandlingLogic :: "env \<Rightarrow> bool" where
  "shouldApplyFatalHandlingLogic w \<longleftrightarrow>
     exitEvenIfOtherHandlersAreRegistered (options w) \<or> processWouldExit w"

definition fatalHint :: "js_error \<Rightarrow> capture_hint" where
  "fatalHint error =
     \<lparr>originalException = error, captureContext_level = ''fatal'',
      mechanism_handled = False, mechanism_type = ''onuncaughtexception''\<rparr>"

definition shutdownWarning :: string where
  "shutdownWarning =
     ''uncaught exception after calling fatal error shutdown callback - this is bad! forcing shutdown''"

text \<open>The callback given to \<open>setTimeout\<close>, run on the closure's variables when it fires.\<close>

definition timeoutCallback :: "timer_closure \<Rightarrow> handler_state \<Rightarrow> handler_state \<times> effect list" where
  "timeoutCallback tc st =
     (if \<not> calledFatalError st
      then (st\<lparr>calledFatalError := True\<rparr>,
            [CallFatal (tc_onFatalError tc) (firstError st) (Some (tc_error tc))])
      else (st, []))"

text \<open>One call \<open>handler(error)\<close>.\<close>

definition errorHandler ::
  "client_id \<Rightarrow> env \<Rightarrow> js_error \<Rightarrow> handler_state \<Rightarrow> handler_state \<times> effect list" where
  "errorHandler client w error st =
     (let onFatal = resolveOnFatalError w;
          shouldApply = shouldApplyFatalHandlingLogic w
      in if \<not> caughtFirstError st then
           (let st1 = st\<lparr>firstError := Some error, caughtFirstError := True\<rparr>;
                captured = (if getClient w = Some client
                            then [CaptureException error (fatalHint error)] else [])
            in if \<not> calledFatalError st1 \<and> shouldApply
               then (st1\<lparr>calledFatalError := True\<rparr>,
                     captured @ [CallFatal onFatal (Some error) None])
               else (st1, captured))
         else if shouldApply then
           (if calledFatalError st then
              (st, (if DEBUG_BUILD w then [LoggerWarn shutdownWarning] else [])
                   @ [CallFatal LogAndExitProcess (Some error) None])
            else if \<not> caughtSecondError st then
              (st\<lparr>caughtSecondError := True\<rparr>,
               [SetTimeout \<lparr>tc_error = error, tc_onFatalError = onFatal\<rparr> timeout])
            else (st, []))
         else (st, []))"

subsection \<open>The handler in its process\<close>

text \<open>
  The process delivers uncaught errors to the handler and, later, runs the timer
  callbacks that the handler has scheduled. A run is a sequence of such events. The
  timers all have the same delay, so they fire in the order they were scheduled;
  \<open>TimerFires\<close> runs the oldest pending one, and does nothing when none is pending.
  The functions called out to are taken to return: the default \<open>logAndExitProcess\<close>
  ends the process only after it has tried to flush, so the handler can be called again
  after it.
\<close>

record system =
  hstate :: handler_state
  pending :: "timer_closure list"
  trace :: "effect list"

datatype event = UncaughtException env js_error | TimerFires

fun scheduled :: "effect list \<Rightarrow> timer_closure list" where
  "scheduled [] = []"
| "scheduled (SetTimeout tc d # es) = tc # scheduled es"
| "scheduled (e # es) = scheduled es"

definition init :: system where
  "init = \<lparr>hstate = makeErrorHandler, pending = [], trace = []\<rparr>"

fun stepEffects :: "client_id \<Rightarrow> system \<Rightarrow> event \<Rightarrow> effect list" where
  "stepEffects client s (UncaughtException w error) =
     snd (errorHandler client w error (hstate s))"
| "stepEffects client s TimerFires =
     (case pending s of [] \<Rightarrow> [] | tc # tcs \<Rightarrow> snd (timeoutCallback tc (hstate s)))"

fun step :: "client_id \<Rightarrow> system \<Rightarrow> event \<Rightarrow> system" where
  "step client s (UncaughtException w error) =
     (let (st', effs) = errorHandler client w error (hstate s)
      in \<lparr>hstate = st', pending = pending s @ scheduled effs, trace = trace s @ effs\<rparr>)"
| "step client s TimerFires =
     (case pending s of
        [] \<Rightarrow> s
      | tc # tcs \<Rightarrow>
          (let (st', effs) = timeoutCallback tc (hstate s)
           in \<lparr>hstate = st', pending = tcs, trace = trace s @ effs\<rparr>))"

fun run :: "client_id \<Rightarrow> system \<Rightarrow> event list \<Rightarrow> system" where
  "run client s [] = s"
| "run client s (ev # evs) = run client (step client s ev) evs"

text \<open>
  The values of \<open>calledFatalError\<close> along a run, the starting state included, and the
  number of times a list of flags goes from false to true, and from true to false.
\<close>

fun flagHistory :: "client_id \<Rightarrow> system \<Rightarrow> event list \<Rightarrow> bool list" where
  "flagHistory client s [] = [calledFatalError (hstate s)]"
| "flagHistory client s (ev # evs) =
     calledFatalError (hstate s) # flagHistory client (step client s ev) evs"

fun rises :: "bool list \<Rightarrow> nat" where
  "rises (a # b # bs) = (if \<not> a \<and> b then 1 else 0) + rises (b # bs)"
| "rises bs = 0"

fun resets :: "bool list \<Rightarrow> nat" where
  "resets (a # b # bs) = (if a \<and> \<not> b then 1 else 0) + resets (b # bs)"
| "resets bs = 0"

fun isCallFatal :: "effect \<Rightarrow> bool" where
  "isCallFatal (CallFatal f a b) = True"
| "isCallFatal e = False"


fun isCaptureException :: "effect \<Rightarrow> bool" where
  "isCaptureException (CaptureException e h) = True"
| "isCaptureException e = False"

text \<open>
  An event at which the handler leaves the exit to others: it is told not to exit when
  other listeners are registered, and a listener it does not ignore is registered.
\<close>

fun defersToOthers :: "event \<Rightarrow> bool" where
  "defersToOthers (UncaughtException w error) \<longleftrightarrow>
     \<not> exitEvenIfOtherHandlersAreRegistered (options w)
     \<and> list_ex (\<lambda>l. \<not> ignoredListener l) (listeners w)"
| "defersToOthers TimerFires \<longleftrightarrow> True"

text \<open>
  What holds of every state that a run from a fresh handler reaches: the flag and
  \<open>caughtSecondError\<close> are set only after the first error, which is stored; a timer is
  pending only between the second error and its firing; there is never a second timer.
\<close>

definition reachable_inv :: "system \<Rightarrow> bool" where
  "reachable_inv s \<longleftrightarrow>
     (calledFatalError (hstate s) \<longrightarrow> caughtFirstError (hstate s))
     \<and> (caughtSecondError (hstate s) \<longrightarrow> caughtFirstError (hstate s))
     \<and> (caughtFirstError (hstate s) \<longrightarrow> firstError (hstate s) \<noteq> None)
     \<and> (pending s \<noteq> [] \<longrightarrow> caughtSecondError (hstate s) \<and> \<not> calledFatalError (hstate s))
     \<and> length (pending s) \<le> 1"

subsection \<open>Concrete processes\<close>

text \<open>
  The handler itself as a listener (\<open>Object.assign\<close> gives it \<open>_errorHandler: true\<close>), a
  listener of the user's, and the listener node attaches for domains.
\<close>

definition ownListener :: TaggedListener where
  "ownListener = \<lparr>listener_name = [], listener_tag = None, listener_errorHandler = True\<rparr>"

definition userListener :: TaggedListener where
  "userListener =
     \<lparr>listener_name = ''onCrash'', listener_tag = None, listener_errorHandler = False\<rparr>"

definition domainListener :: TaggedListener where
  "domainListener =
     \<lparr>listener_name = ''domainUncaughtExceptionClear'', listener_tag = None,
      listener_errorHandler = False\<rparr>"

definition tracingListener :: TaggedListener where
  "tracingListener =
     \<lparr>listener_name = [], listener_tag = Some ''sentry_tracingErrorCallback'',
      listener_errorHandler = False\<rparr>"

text \<open>
  The integration's default options (\<open>exitEvenIfOtherHandlersAreRegistered: true\<close>, no
  \<open>onFatalError\<close>), no \<open>onFatalError\<close> in the client's options, the handler as the only
  listener, and client 1 active.
\<close>

definition defaultEnv :: env where
  "defaultEnv =
     \<lparr>options = \<lparr>exitEvenIfOtherHandlersAreRegistered = True, onFatalError = None\<rparr>,
      clientOptions_onFatalError = None,
      listeners = [ownListener],
      getClient = Some 1,
      DEBUG_BUILD = False\<rparr>"

text \<open>The same with \<open>exitEvenIfOtherHandlersAreRegistered: false\<close> and a listener of the user's.\<close>

definition deferringEnv :: env where
  "deferringEnv =
     defaultEnv
       \<lparr>options := \<lparr>exitEvenIfOtherHandlersAreRegistered = False, onFatalError = None\<rparr>,
        listeners := [ownListener, userListener]\<rparr>"

text \<open>The same as \<open>deferringEnv\<close> after the user's listener has been removed.\<close>

definition aloneEnv :: env where
  "aloneEnv = deferringEnv\<lparr>listeners := [ownListener]\<rparr>"

text \<open>The default with an \<open>onFatalError\<close> given to the integration.\<close>

definition customEnv :: env where
  "customEnv =
     defaultEnv
       \<lparr>options := \<lparr>exitEvenIfOtherHandlersAreRegistered = True, onFatalError = Some ''shutdown''\<rparr>\<rparr>"

section \<open>Properties\<close>

lemmas handler_defs =
  init_def makeErrorHandler_def errorHandler_def timeoutCallback_def
  resolveOnFatalError_def shouldApplyFatalHandlingLogic_def processWouldExit_def
  userProvidedListenersCount_def ignoredListener_def fatalHint_def timeout_def Let_def

subsection \<open>Counting listeners\<close>

lemma foldl_count_acc:
  "foldl (\<lambda>acc listener. if ignoredListener listener then acc else acc + 1) n ls =
     n + length (filter (\<lambda>l. \<not> ignoredListener l) ls)"
  by (induction ls arbitrary: n) simp_all

lemma userProvidedListenersCount_filter:
  "userProvidedListenersCount ls = length (filter (\<lambda>l. \<not> ignoredListener l) ls)"
  by (simp add: userProvidedListenersCount_def foldl_count_acc)

lemma userProvidedListenersCount_zero:
  "userProvidedListenersCount ls = 0 \<longleftrightarrow> list_all ignoredListener ls"
  by (simp add: userProvidedListenersCount_filter filter_empty_conv list_all_iff)

subsection \<open>The flag \<open>calledFatalError\<close> is only ever set\<close>

lemma timeoutCallback_called:
  "calledFatalError (fst (timeoutCallback tc st))"
  by (simp add: timeoutCallback_def)

lemma errorHandler_keeps_called:
  "calledFatalError st \<Longrightarrow> calledFatalError (fst (errorHandler client w error st))"
  by (simp add: errorHandler_def Let_def)

lemma errorHandler_fatal_called:
  "list_ex isCallFatal (snd (errorHandler client w error st)) \<Longrightarrow>
     calledFatalError (fst (errorHandler client w error st))"
  by (simp add: errorHandler_def Let_def split: if_splits)

lemma step_keeps_called:
  assumes "calledFatalError (hstate s)"
  shows "calledFatalError (hstate (step client s ev))"
proof (cases ev)
  case (UncaughtException w error)
  from assms have "calledFatalError (fst (errorHandler client w error (hstate s)))"
    by (rule errorHandler_keeps_called)
  with UncaughtException show ?thesis
    by (simp add: split_beta)
next
  case TimerFires
  with assms show ?thesis
    by (cases "pending s") (simp_all add: split_beta timeoutCallback_called)
qed

lemma run_keeps_called:
  "calledFatalError (hstate s) \<Longrightarrow> calledFatalError (hstate (run client s evs))"
  by (induction evs arbitrary: s) (simp_all add: step_keeps_called)

lemma step_fatal_called:
  assumes "list_ex isCallFatal (stepEffects client s ev)"
  shows "calledFatalError (hstate (step client s ev))"
proof (cases ev)
  case (UncaughtException w error)
  with assms have "calledFatalError (fst (errorHandler client w error (hstate s)))"
    by (simp add: errorHandler_fatal_called)
  with UncaughtException show ?thesis
    by (simp add: split_beta)
next
  case TimerFires
  with assms show ?thesis
    by (cases "pending s") (simp_all add: split_beta timeoutCallback_called)
qed

lemma rises_Cons:
  "rises (a # bs) = (if bs \<noteq> [] \<and> \<not> a \<and> hd bs then 1 else 0) + rises bs"
  by (cases bs) simp_all

lemma resets_Cons:
  "resets (a # bs) = (if bs \<noteq> [] \<and> a \<and> \<not> hd bs then 1 else 0) + resets bs"
  by (cases bs) simp_all

lemma flagHistory_not_Nil: "flagHistory client s evs \<noteq> []"
  by (cases evs) simp_all

lemma hd_flagHistory: "hd (flagHistory client s evs) = calledFatalError (hstate s)"
  by (cases evs) simp_all

lemma flagHistory_rises:
  "rises (flagHistory client s evs) \<le> (if calledFatalError (hstate s) then 0 else 1)"
proof (induction evs arbitrary: s)
  case Nil
  show ?case by simp
next
  case (Cons ev evs)
  show ?case
  proof (cases "calledFatalError (hstate (step client s ev))")
    case True
    with Cons.IH [of "step client s ev"] show ?thesis
      by (simp add: rises_Cons flagHistory_not_Nil hd_flagHistory)
  next
    case False
    then have "\<not> calledFatalError (hstate s)"
      using step_keeps_called by blast
    with False Cons.IH [of "step client s ev"] show ?thesis
      by (simp add: rises_Cons flagHistory_not_Nil hd_flagHistory)
  qed
qed

lemma flagHistory_resets: "resets (flagHistory client s evs) = 0"
  by (induction evs arbitrary: s)
    (simp_all add: resets_Cons flagHistory_not_Nil hd_flagHistory step_keeps_called)

subsection \<open>What holds of every state a run from a fresh handler reaches\<close>

lemma reachable_inv_init: "reachable_inv init"
  by (simp add: reachable_inv_def init_def makeErrorHandler_def)

lemma reachable_inv_step:
  assumes "reachable_inv s"
  shows "reachable_inv (step client s ev)"
proof (cases ev)
  case (UncaughtException w error)
  with assms show ?thesis
    by (auto simp: reachable_inv_def errorHandler_def Let_def)
next
  case TimerFires
  with assms show ?thesis
    by (cases "pending s") (auto simp: reachable_inv_def timeoutCallback_def)
qed

lemma reachable_inv_run_from:
  "reachable_inv s \<Longrightarrow> reachable_inv (run client s evs)"
  by (induction evs arbitrary: s) (simp_all add: reachable_inv_step)

lemma reachable_inv_run: "reachable_inv (run client init evs)"
  by (simp add: reachable_inv_run_from reachable_inv_init)


subsection \<open>Runs in which the handler leaves the exit to others\<close>

lemma defers_not_shouldApply:
  assumes "defersToOthers (UncaughtException w error)"
  shows "\<not> shouldApplyFatalHandlingLogic w"
  using assms
  by (auto simp: shouldApplyFatalHandlingLogic_def processWouldExit_def
      userProvidedListenersCount_zero list_all_iff list_ex_iff)

lemma errorHandler_not_shouldApply:
  assumes "\<not> shouldApplyFatalHandlingLogic w"
  shows "filter isCallFatal (snd (errorHandler client w error st)) = []
         \<and> scheduled (snd (errorHandler client w error st)) = []"
  using assms by (simp add: errorHandler_def Let_def)

lemma step_defers:
  assumes "defersToOthers ev" and "pending s = []"
  shows "pending (step client s ev) = []
         \<and> filter isCallFatal (trace (step client s ev)) = filter isCallFatal (trace s)"
proof (cases ev)
  case (UncaughtException w error)
  with assms(1) have "\<not> shouldApplyFatalHandlingLogic w"
    using defers_not_shouldApply by blast
  from errorHandler_not_shouldApply [OF this, of client error "hstate s"]
  show ?thesis
    using UncaughtException assms(2) by (simp add: split_beta)
next
  case TimerFires
  with assms(2) show ?thesis by simp
qed

lemma run_defers:
  "list_all defersToOthers evs \<Longrightarrow> pending s = [] \<Longrightarrow> filter isCallFatal (trace s) = [] \<Longrightarrow>
     filter isCallFatal (trace (run client s evs)) = []"
proof (induction evs arbitrary: s)
  case Nil
  then show ?case by simp
next
  case (Cons ev evs)
  from Cons.prems have d: "defersToOthers ev" and ds: "list_all defersToOthers evs"
    by simp_all
  from step_defers [OF d Cons.prems(2), of client] Cons.prems(3)
  have "pending (step client s ev) = []"
    and "filter isCallFatal (trace (step client s ev)) = []"
    by simp_all
  with Cons.IH [OF ds] show ?case
    by simp
qed


subsection \<open>The claims\<close>

text \<open>
  C1. Along every run, from any state of the handler, \<open>calledFatalError\<close> goes from
  false to true at most once and never from true to false; and once a step has called a
  fatal-error function, the flag is true after that step and after every later one.
\<close>

theorem calledFatalError_set_at_most_once:
  "rises (flagHistory client s evs) \<le> 1
   \<and> resets (flagHistory client s evs) = 0
   \<and> (list_ex isCallFatal (stepEffects client s ev) \<longrightarrow>
        calledFatalError (hstate (run client (step client s ev) evs)))"
proof -
  have "rises (flagHistory client s evs) \<le> 1"
    using flagHistory_rises [of client s evs] by (simp split: if_splits)
  moreover have "resets (flagHistory client s evs) = 0"
    by (rule flagHistory_resets)
  moreover have "calledFatalError (hstate (run client (step client s ev) evs))"
    if "list_ex isCallFatal (stepEffects client s ev)"
    using that by (simp add: step_fatal_called run_keeps_called)
  ultimately show ?thesis by blast
qed

theorem calledFatalError_set_at_most_once_witness:
  "list_ex isCallFatal (stepEffects 1 init (UncaughtException defaultEnv ''E1''))
   \<and> calledFatalError (hstate (run 1 (step 1 init (UncaughtException defaultEnv ''E1''))
        [UncaughtException defaultEnv ''E2'', TimerFires]))
   \<and> rises (flagHistory 1 init [UncaughtException defaultEnv ''E2'', TimerFires]) \<le> 1
   \<and> resets (flagHistory 1 init [UncaughtException defaultEnv ''E2'', TimerFires]) = 0"
proof -
  have "list_ex isCallFatal (stepEffects 1 init (UncaughtException defaultEnv ''E1''))"
    by (simp add: handler_defs defaultEnv_def ownListener_def)
  with calledFatalError_set_at_most_once
    [of 1 init "[UncaughtException defaultEnv ''E2'', TimerFires]"
      "UncaughtException defaultEnv ''E1''"]
  show ?thesis by blast
qed


text \<open>
  C2. A second error that arrives while the fatal logic applies and \<open>calledFatalError\<close>
  is still false sets \<open>caughtSecondError\<close> and schedules one timer of 2000 ms and nothing
  else. The timer's callback, whatever the state it finds, calls the fatal-error function
  resolved at the second error with \<open>(firstError, secondError)\<close>, once, and sets the flag,
  if the flag is false; it does nothing if the flag is true.
\<close>

theorem second_error_grace_timer:
  assumes "caughtFirstError st" and "\<not> caughtSecondError st"
    and "\<not> calledFatalError st" and "shouldApplyFatalHandlingLogic w"
  shows "errorHandler client w error2 st =
           (st\<lparr>caughtSecondError := True\<rparr>,
            [SetTimeout \<lparr>tc_error = error2, tc_onFatalError = resolveOnFatalError w\<rparr> 2000])
         \<and> timeoutCallback \<lparr>tc_error = error2, tc_onFatalError = resolveOnFatalError w\<rparr> st' =
             (if calledFatalError st' then (st', [])
              else (st'\<lparr>calledFatalError := True\<rparr>,
                    [CallFatal (resolveOnFatalError w) (firstError st') (Some error2)]))"
  using assms by (simp add: errorHandler_def timeoutCallback_def timeout_def Let_def)

text \<open>
  The first error comes while a listener of the user's is registered and the handler is
  told to leave the exit to it; the listener is gone when the second error comes.
\<close>

theorem second_error_grace_timer_witness:
  "caughtFirstError (hstate (run 1 init [UncaughtException deferringEnv ''E1'']))
   \<and> \<not> caughtSecondError (hstate (run 1 init [UncaughtException deferringEnv ''E1'']))
   \<and> \<not> calledFatalError (hstate (run 1 init [UncaughtException deferringEnv ''E1'']))
   \<and> shouldApplyFatalHandlingLogic aloneEnv
   \<and> trace (run 1 init
        [UncaughtException deferringEnv ''E1'', UncaughtException aloneEnv ''E2'', TimerFires]) =
       [CaptureException ''E1'' (fatalHint ''E1''),
        SetTimeout \<lparr>tc_error = ''E2'', tc_onFatalError = LogAndExitProcess\<rparr> 2000,
        CallFatal LogAndExitProcess (Some ''E1'') (Some ''E2'')]"
proof -
  define st1 where "st1 = \<lparr>caughtFirstError = True, caughtSecondError = False,
      calledFatalError = False, firstError = Some ''E1''\<rparr>"
  define s1 where "s1 = run 1 init [UncaughtException deferringEnv ''E1'']"
  have s1: "s1 = \<lparr>hstate = st1, pending = [],
      trace = [CaptureException ''E1'' (fatalHint ''E1'')]\<rparr>"
    unfolding s1_def st1_def
    by (simp add: handler_defs deferringEnv_def defaultEnv_def ownListener_def userListener_def)
  have h: "caughtFirstError st1" "\<not> caughtSecondError st1" "\<not> calledFatalError st1"
    by (simp_all add: st1_def)
  have a: "shouldApplyFatalHandlingLogic aloneEnv"
    by (simp add: handler_defs aloneEnv_def deferringEnv_def defaultEnv_def ownListener_def)
  have r: "resolveOnFatalError aloneEnv = LogAndExitProcess"
    by (simp add: handler_defs aloneEnv_def deferringEnv_def defaultEnv_def)
  note g = second_error_grace_timer
    [OF h a, of 1 "''E2''" "st1\<lparr>caughtSecondError := True\<rparr>", unfolded r]
  have s2: "step 1 s1 (UncaughtException aloneEnv ''E2'') =
      \<lparr>hstate = st1\<lparr>caughtSecondError := True\<rparr>,
       pending = [\<lparr>tc_error = ''E2'', tc_onFatalError = LogAndExitProcess\<rparr>],
       trace = [CaptureException ''E1'' (fatalHint ''E1''),
         SetTimeout \<lparr>tc_error = ''E2'', tc_onFatalError = LogAndExitProcess\<rparr> 2000]\<rparr>"
    using g by (simp add: s1)
  have s3: "trace (step 1 (step 1 s1 (UncaughtException aloneEnv ''E2'')) TimerFires) =
      [CaptureException ''E1'' (fatalHint ''E1''),
       SetTimeout \<lparr>tc_error = ''E2'', tc_onFatalError = LogAndExitProcess\<rparr> 2000,
       CallFatal LogAndExitProcess (Some ''E1'') (Some ''E2'')]"
    unfolding s2 using g by (simp add: st1_def)
  have e: "run 1 init
      [UncaughtException deferringEnv ''E1'', UncaughtException aloneEnv ''E2'', TimerFires] =
      step 1 (step 1 s1 (UncaughtException aloneEnv ''E2'')) TimerFires"
    unfolding s1_def by (simp only: run.simps)
  have hs: "hstate (run 1 init [UncaughtException deferringEnv ''E1'']) = st1"
    by (subst s1 [unfolded s1_def]) simp
  show ?thesis
    unfolding hs e using h a s3 by blast
qed


text \<open>
  C3, as the specification has it: on the first error, with the default configuration
  and no listener of the user's, the reporter is called with the error. It is not when
  another client is the active one: the process below has the default configuration and
  only the handler as a listener, client 2 is active, the handler is bound to client 1,
  and the only call is the one of \<open>logAndExitProcess\<close>.
\<close>

theorem first_error_report_counterexample:
  "exitEvenIfOtherHandlersAreRegistered (options (defaultEnv\<lparr>getClient := Some 2\<rparr>))
   \<and> resolveOnFatalError (defaultEnv\<lparr>getClient := Some 2\<rparr>) = LogAndExitProcess
   \<and> list_all ignoredListener (listeners (defaultEnv\<lparr>getClient := Some 2\<rparr>))
   \<and> snd (errorHandler 1 (defaultEnv\<lparr>getClient := Some 2\<rparr>) ''E1'' makeErrorHandler) =
       [CallFatal LogAndExitProcess (Some ''E1'') None]
   \<and> \<not> list_ex isCaptureException
         (snd (errorHandler 1 (defaultEnv\<lparr>getClient := Some 2\<rparr>) ''E1'' makeErrorHandler))"
  by (simp add: handler_defs defaultEnv_def ownListener_def)

text \<open>
  C3, amended: on the first error, with the default configuration, no listener of the
  user's and the bound client the active one, the handler stores the error as
  \<open>firstError\<close>, calls the reporter with it, and in the same call sets
  \<open>calledFatalError\<close> and calls \<open>logAndExitProcess\<close> with the error alone. It schedules
  nothing.
\<close>

theorem first_error_default_configuration:
  assumes "exitEvenIfOtherHandlersAreRegistered (options w)"
    and "onFatalError (options w) = None" and "clientOptions_onFatalError w = None"
    and "list_all ignoredListener (listeners w)"
    and "getClient w = Some client"
  shows "errorHandler client w error makeErrorHandler =
           (\<lparr>caughtFirstError = True, caughtSecondError = False, calledFatalError = True,
             firstError = Some error\<rparr>,
            [CaptureException error (fatalHint error),
             CallFatal LogAndExitProcess (Some error) None])"
  using assms
  by (simp add: errorHandler_def makeErrorHandler_def resolveOnFatalError_def
      shouldApplyFatalHandlingLogic_def Let_def)

theorem first_error_default_configuration_witness:
  "exitEvenIfOtherHandlersAreRegistered (options defaultEnv)
   \<and> onFatalError (options defaultEnv) = None
   \<and> clientOptions_onFatalError defaultEnv = None
   \<and> list_all ignoredListener (listeners defaultEnv)
   \<and> getClient defaultEnv = Some 1
   \<and> errorHandler 1 defaultEnv ''E1'' makeErrorHandler =
       (\<lparr>caughtFirstError = True, caughtSecondError = False, calledFatalError = True,
         firstError = Some ''E1''\<rparr>,
        [CaptureException ''E1'' (fatalHint ''E1''),
         CallFatal LogAndExitProcess (Some ''E1'') None])"
proof -
  have h: "exitEvenIfOtherHandlersAreRegistered (options defaultEnv)"
    "onFatalError (options defaultEnv) = None"
    "clientOptions_onFatalError defaultEnv = None"
    "list_all ignoredListener (listeners defaultEnv)"
    "getClient defaultEnv = Some 1"
    by (simp_all add: defaultEnv_def ownListener_def ignoredListener_def)
  from first_error_default_configuration [OF h, of "''E1''"] h show ?thesis
    by blast
qed

text \<open>
  C4, as the specification has it: an error that comes after the fatal-error function
  has been called makes the handler call that function again. With an \<open>onFatalError\<close>
  of the user's the function called first is the user's, and the one called for the
  later error is \<open>logAndExitProcess\<close>.
\<close>

theorem error_after_shutdown_counterexample:
  "trace (run 1 init [UncaughtException customEnv ''E1'']) =
     [CaptureException ''E1'' (fatalHint ''E1''),
      CallFatal (UserCallback ''shutdown'') (Some ''E1'') None]
   \<and> calledFatalError (hstate (run 1 init [UncaughtException customEnv ''E1'']))
   \<and> shouldApplyFatalHandlingLogic customEnv
   \<and> resolveOnFatalError customEnv = UserCallback ''shutdown''
   \<and> stepEffects 1 (run 1 init [UncaughtException customEnv ''E1''])
        (UncaughtException customEnv ''E2'') =
       [CallFatal LogAndExitProcess (Some ''E2'') None]
   \<and> CallFatal (resolveOnFatalError customEnv) (Some ''E2'') None \<notin>
       set (stepEffects 1 (run 1 init [UncaughtException customEnv ''E1''])
             (UncaughtException customEnv ''E2''))"
  by (simp add: handler_defs customEnv_def defaultEnv_def ownListener_def)

text \<open>
  C4, amended: in every state that a run from a fresh handler reaches with
  \<open>calledFatalError\<close> true, an error that comes while the fatal logic applies makes the
  handler call \<open>logAndExitProcess\<close> with that error alone, at once: whatever
  \<open>onFatalError\<close> is configured, after a warning in a debug build, with no timer
  scheduled and the state left as it is.
\<close>

theorem error_after_shutdown:
  assumes "s = run client init evs"
    and "calledFatalError (hstate s)" and "shouldApplyFatalHandlingLogic w"
  shows "errorHandler client w error (hstate s) =
           (hstate s,
            (if DEBUG_BUILD w then [LoggerWarn shutdownWarning] else [])
            @ [CallFatal LogAndExitProcess (Some error) None])"
proof -
  from assms(1) have "reachable_inv s"
    by (simp add: reachable_inv_run)
  with assms(2) have "caughtFirstError (hstate s)"
    by (simp add: reachable_inv_def)
  with assms(2,3) show ?thesis
    by (simp add: errorHandler_def Let_def)
qed

theorem error_after_shutdown_witness:
  "calledFatalError (hstate (run 1 init [UncaughtException customEnv ''E1'']))
   \<and> shouldApplyFatalHandlingLogic customEnv
   \<and> errorHandler 1 customEnv ''E2'' (hstate (run 1 init [UncaughtException customEnv ''E1''])) =
       (hstate (run 1 init [UncaughtException customEnv ''E1'']),
        [CallFatal LogAndExitProcess (Some ''E2'') None])"
proof -
  have c: "calledFatalError (hstate (run 1 init [UncaughtException customEnv ''E1'']))"
    by (simp add: handler_defs customEnv_def defaultEnv_def ownListener_def)
  have a: "shouldApplyFatalHandlingLogic customEnv"
    by (simp add: handler_defs customEnv_def defaultEnv_def)
  have d: "\<not> DEBUG_BUILD customEnv"
    by (simp add: customEnv_def defaultEnv_def)
  from error_after_shutdown [OF refl c a, of "''E2''"] c a d show ?thesis
    by simp
qed


text \<open>
  C5. When at every call of the handler \<open>exitEvenIfOtherHandlersAreRegistered\<close> is false
  and a listener that the handler does not ignore is registered, no run from a fresh
  handler, however many errors it delivers, calls a fatal-error function.
\<close>

theorem no_termination_when_deferring:
  assumes "list_all defersToOthers evs"
  shows "\<not> list_ex isCallFatal (trace (run client init evs))"
proof -
  have "pending init = []" and "filter isCallFatal (trace init) = []"
    by (simp_all add: init_def)
  with assms have "filter isCallFatal (trace (run client init evs)) = []"
    by (simp add: run_defers)
  then show ?thesis
    by (simp add: filter_empty_conv list_ex_iff)
qed

theorem no_termination_when_deferring_witness:
  "list_all defersToOthers
     [UncaughtException deferringEnv ''E1'', UncaughtException deferringEnv ''E2'', TimerFires,
      UncaughtException deferringEnv ''E3'']
   \<and> \<not> list_ex isCallFatal (trace (run 1 init
       [UncaughtException deferringEnv ''E1'', UncaughtException deferringEnv ''E2'', TimerFires,
        UncaughtException deferringEnv ''E3'']))"
proof -
  have h: "list_all defersToOthers
     [UncaughtException deferringEnv ''E1'', UncaughtException deferringEnv ''E2'', TimerFires,
      UncaughtException deferringEnv ''E3'']"
    by (simp add: deferringEnv_def defaultEnv_def ownListener_def userListener_def
        ignoredListener_def)
  from no_termination_when_deferring [OF h, of 1] h show ?thesis
    by blast
qed

text \<open>
  C6. At every call, \<open>shouldApplyFatalHandlingLogic\<close> is
  \<open>exitEvenIfOtherHandlersAreRegistered\<close> or a count of zero, and the count is not
  changed by the listeners that carry \<open>_errorHandler\<close> or the tag
  \<open>sentry_tracingErrorCallback\<close>: it is the count of the list without them.
\<close>

theorem shouldApplyFatalHandlingLogic_count:
  "(shouldApplyFatalHandlingLogic w \<longleftrightarrow>
      exitEvenIfOtherHandlersAreRegistered (options w)
      \<or> userProvidedListenersCount (listeners w) = 0)
   \<and> userProvidedListenersCount (listeners w) =
       userProvidedListenersCount
         (filter (\<lambda>l. \<not> (listener_errorHandler l
            \<or> listener_tag l = Some ''sentry_tracingErrorCallback'')) (listeners w))"
proof -
  have "filter (\<lambda>l. \<not> ignoredListener l)
      (filter (\<lambda>l. \<not> (listener_errorHandler l
         \<or> listener_tag l = Some ''sentry_tracingErrorCallback'')) ls) =
      filter (\<lambda>l. \<not> ignoredListener l) ls" for ls
    by (induction ls) (auto simp: ignoredListener_def)
  then show ?thesis
    by (simp add: shouldApplyFatalHandlingLogic_def processWouldExit_def
        userProvidedListenersCount_filter)
qed

theorem shouldApplyFatalHandlingLogic_count_witness:
  "shouldApplyFatalHandlingLogic
     (deferringEnv\<lparr>listeners := [ownListener, tracingListener]\<rparr>)
   \<and> userProvidedListenersCount [ownListener, tracingListener] = 0
   \<and> \<not> shouldApplyFatalHandlingLogic
         (deferringEnv\<lparr>listeners := [ownListener, userListener, tracingListener]\<rparr>)
   \<and> userProvidedListenersCount [ownListener, userListener, tracingListener] = 1"
  using shouldApplyFatalHandlingLogic_count
    [of "deferringEnv\<lparr>listeners := [ownListener, tracingListener]\<rparr>"]
    shouldApplyFatalHandlingLogic_count
    [of "deferringEnv\<lparr>listeners := [ownListener, userListener, tracingListener]\<rparr>"]
  by (simp add: deferringEnv_def defaultEnv_def ownListener_def userListener_def
      tracingListener_def userProvidedListenersCount_def ignoredListener_def)

text \<open>
  C7. In every state that a run from a fresh handler reaches with \<open>caughtSecondError\<close>
  true and \<open>calledFatalError\<close> false, a further error changes nothing: the handler's
  four variables stay as they are, it makes no call and schedules no timer, so the
  pending timer and the trace are the same, and the run goes on as if the error had not
  come.
\<close>

theorem later_errors_ignored:
  assumes "s = run client init evs"
    and "caughtSecondError (hstate s)" and "\<not> calledFatalError (hstate s)"
  shows "errorHandler client w error (hstate s) = (hstate s, [])
         \<and> step client s (UncaughtException w error) = s
         \<and> run client s (UncaughtException w error # rest) = run client s rest"
proof -
  from assms(1) have "reachable_inv s"
    by (simp add: reachable_inv_run)
  with assms(2) have "caughtFirstError (hstate s)"
    by (simp add: reachable_inv_def)
  with assms(2,3) have h: "errorHandler client w error (hstate s) = (hstate s, [])"
    by (simp add: errorHandler_def Let_def)
  then have st: "step client s (UncaughtException w error) = s"
    by simp
  have "run client s (UncaughtException w error # rest) = run client s rest"
    by (simp only: run.simps st)
  with h st show ?thesis
    by blast
qed

theorem later_errors_ignored_witness:
  "caughtSecondError (hstate (run 1 init
      [UncaughtException deferringEnv ''E1'', UncaughtException aloneEnv ''E2'']))
   \<and> \<not> calledFatalError (hstate (run 1 init
      [UncaughtException deferringEnv ''E1'', UncaughtException aloneEnv ''E2'']))
   \<and> run 1 (run 1 init [UncaughtException deferringEnv ''E1'', UncaughtException aloneEnv ''E2''])
       [UncaughtException aloneEnv ''E3'', TimerFires] =
      run 1 (run 1 init [UncaughtException deferringEnv ''E1'', UncaughtException aloneEnv ''E2''])
       [TimerFires]"
proof -
  have h: "caughtSecondError (hstate (run 1 init
      [UncaughtException deferringEnv ''E1'', UncaughtException aloneEnv ''E2'']))"
    "\<not> calledFatalError (hstate (run 1 init
      [UncaughtException deferringEnv ''E1'', UncaughtException aloneEnv ''E2'']))"
    by (simp_all add: handler_defs aloneEnv_def deferringEnv_def defaultEnv_def
        ownListener_def userListener_def)
  from later_errors_ignored [OF refl h, of aloneEnv "''E3''" "[TimerFires]"] h
  show ?thesis
    by blast
qed


text \<open>
  C8. On the first error the reporter is called exactly when the active client is the
  client the handler was made for. Whether it is or not, the error is stored as
  \<open>firstError\<close>, \<open>caughtFirstError\<close> is set, and the fatal-error function is called under
  the same condition and with the same arguments; with another client active the call
  of the reporter is the only thing missing.
\<close>

theorem stale_client_guard:
  assumes "\<not> caughtFirstError st"
  shows "(list_ex isCaptureException (snd (errorHandler client w error st)) \<longleftrightarrow>
            getClient w = Some client)
         \<and> snd (errorHandler client w error st) =
             (if getClient w = Some client
              then [CaptureException error (fatalHint error)] else [])
             @ (if \<not> calledFatalError st \<and> shouldApplyFatalHandlingLogic w
                then [CallFatal (resolveOnFatalError w) (Some error) None] else [])
         \<and> fst (errorHandler client w error st) =
             st\<lparr>firstError := Some error, caughtFirstError := True,
                calledFatalError := calledFatalError st \<or> shouldApplyFatalHandlingLogic w\<rparr>"
  using assms by (simp add: errorHandler_def Let_def)

theorem stale_client_guard_witness:
  "\<not> caughtFirstError makeErrorHandler
   \<and> getClient (defaultEnv\<lparr>getClient := Some 2\<rparr>) \<noteq> Some 1
   \<and> \<not> list_ex isCaptureException
         (snd (errorHandler 1 (defaultEnv\<lparr>getClient := Some 2\<rparr>) ''E1'' makeErrorHandler))
   \<and> firstError (fst (errorHandler 1 (defaultEnv\<lparr>getClient := Some 2\<rparr>) ''E1''
        makeErrorHandler)) = Some ''E1''
   \<and> list_ex isCaptureException (snd (errorHandler 1 defaultEnv ''E1'' makeErrorHandler))"
proof -
  have h: "\<not> caughtFirstError makeErrorHandler"
    by (simp add: makeErrorHandler_def)
  from stale_client_guard [OF h, of 1 "defaultEnv\<lparr>getClient := Some 2\<rparr>" "''E1''"]
    stale_client_guard [OF h, of 1 defaultEnv "''E1''"] h
  show ?thesis
    by (simp add: defaultEnv_def)
qed

text \<open>
  C9. A listener whose function name is \<open>domainUncaughtExceptionClear\<close> is not counted,
  wherever it stands among the listeners. So when every listener is node's domain
  listener or carries \<open>_errorHandler\<close>, the count is zero, the fatal logic applies
  whatever \<open>exitEvenIfOtherHandlersAreRegistered\<close> is, and the first error makes a fresh
  handler call the fatal-error function.
\<close>

theorem domain_listener_not_counted:
  "(listener_name l = ''domainUncaughtExceptionClear'' \<longrightarrow>
      userProvidedListenersCount (xs @ l # ys) = userProvidedListenersCount (xs @ ys))
   \<and> (list_all (\<lambda>l. listener_name l = ''domainUncaughtExceptionClear''
                      \<or> listener_errorHandler l) (listeners w) \<longrightarrow>
        userProvidedListenersCount (listeners w) = 0
        \<and> shouldApplyFatalHandlingLogic w
        \<and> CallFatal (resolveOnFatalError w) (Some error) None
            \<in> set (snd (errorHandler client w error makeErrorHandler)))"
proof -
  have "userProvidedListenersCount (xs @ l # ys) = userProvidedListenersCount (xs @ ys)"
    if "listener_name l = ''domainUncaughtExceptionClear''"
    using that by (simp add: userProvidedListenersCount_filter ignoredListener_def)
  moreover have "userProvidedListenersCount (listeners w) = 0
      \<and> shouldApplyFatalHandlingLogic w
      \<and> CallFatal (resolveOnFatalError w) (Some error) None
          \<in> set (snd (errorHandler client w error makeErrorHandler))"
    if a: "list_all (\<lambda>l. listener_name l = ''domainUncaughtExceptionClear''
                      \<or> listener_errorHandler l) (listeners w)"
  proof -
    from a have "list_all ignoredListener (listeners w)"
      by (auto simp: list_all_iff ignoredListener_def)
    then have c: "userProvidedListenersCount (listeners w) = 0"
      by (simp add: userProvidedListenersCount_zero)
    then have "shouldApplyFatalHandlingLogic w"
      by (simp add: shouldApplyFatalHandlingLogic_def processWouldExit_def)
    with c show ?thesis
      by (simp add: errorHandler_def makeErrorHandler_def Let_def)
  qed
  ultimately show ?thesis by blast
qed

theorem domain_listener_not_counted_witness:
  "listener_name domainListener = ''domainUncaughtExceptionClear''
   \<and> list_all (\<lambda>l. listener_name l = ''domainUncaughtExceptionClear'' \<or> listener_errorHandler l)
       (listeners (deferringEnv\<lparr>listeners := [ownListener, domainListener]\<rparr>))
   \<and> \<not> exitEvenIfOtherHandlersAreRegistered
         (options (deferringEnv\<lparr>listeners := [ownListener, domainListener]\<rparr>))
   \<and> userProvidedListenersCount [ownListener, domainListener] = userProvidedListenersCount [ownListener]
   \<and> shouldApplyFatalHandlingLogic (deferringEnv\<lparr>listeners := [ownListener, domainListener]\<rparr>)
   \<and> CallFatal LogAndExitProcess (Some ''E1'') None
       \<in> set (snd (errorHandler 1 (deferringEnv\<lparr>listeners := [ownListener, domainListener]\<rparr>)
            ''E1'' makeErrorHandler))"
proof -
  let ?w = "deferringEnv\<lparr>listeners := [ownListener, domainListener]\<rparr>"
  have n: "listener_name domainListener = ''domainUncaughtExceptionClear''"
    by (simp add: domainListener_def)
  have a: "list_all (\<lambda>l. listener_name l = ''domainUncaughtExceptionClear''
      \<or> listener_errorHandler l) (listeners ?w)"
    by (simp add: ownListener_def domainListener_def)
  have e: "\<not> exitEvenIfOtherHandlersAreRegistered (options ?w)"
    by (simp add: deferringEnv_def defaultEnv_def)
  have r: "resolveOnFatalError ?w = LogAndExitProcess"
    by (simp add: resolveOnFatalError_def deferringEnv_def defaultEnv_def)
  note t = domain_listener_not_counted [of domainListener "[ownListener]" "[]" ?w "''E1''" 1]
  from t n have c: "userProvidedListenersCount [ownListener, domainListener] =
      userProvidedListenersCount [ownListener]"
    by simp
  from t a have "shouldApplyFatalHandlingLogic ?w
      \<and> CallFatal (resolveOnFatalError ?w) (Some ''E1'') None
          \<in> set (snd (errorHandler 1 ?w ''E1'' makeErrorHandler))"
    by blast
  with n a e c show ?thesis
    unfolding r by blast
qed

text \<open>
  C10. The fatal-error function of a call is the integration's \<open>onFatalError\<close> if there
  is one, else the client options' \<open>onFatalError\<close> if there is one, else
  \<open>logAndExitProcess\<close>; it is the function the first error's call makes when it sets
  the flag, and the function the second error's call hands to the timer, which is the one
  the timer's callback calls.
\<close>

theorem onFatalError_resolution:
  "(onFatalError (options w) = Some f \<longrightarrow> resolveOnFatalError w = UserCallback f)
   \<and> (onFatalError (options w) = None \<and> clientOptions_onFatalError w = Some g \<longrightarrow>
        resolveOnFatalError w = UserCallback g)
   \<and> (onFatalError (options w) = None \<and> clientOptions_onFatalError w = None \<longrightarrow>
        resolveOnFatalError w = LogAndExitProcess)
   \<and> (\<not> caughtFirstError st \<and> \<not> calledFatalError st \<and> shouldApplyFatalHandlingLogic w \<longrightarrow>
        filter isCallFatal (snd (errorHandler client w error st)) =
          [CallFatal (resolveOnFatalError w) (Some error) None])
   \<and> (caughtFirstError st \<and> \<not> calledFatalError st \<and> \<not> caughtSecondError st
        \<and> shouldApplyFatalHandlingLogic w \<longrightarrow>
        scheduled (snd (errorHandler client w error st)) =
          [\<lparr>tc_error = error, tc_onFatalError = resolveOnFatalError w\<rparr>])
   \<and> (\<not> calledFatalError st \<longrightarrow>
        snd (timeoutCallback tc st) =
          [CallFatal (tc_onFatalError tc) (firstError st) (Some (tc_error tc))])"
  by (simp add: resolveOnFatalError_def errorHandler_def timeoutCallback_def Let_def)

theorem onFatalError_resolution_witness:
  "onFatalError (options (defaultEnv\<lparr>clientOptions_onFatalError := Some ''flush''\<rparr>)) = None
   \<and> clientOptions_onFatalError (defaultEnv\<lparr>clientOptions_onFatalError := Some ''flush''\<rparr>)
       = Some ''flush''
   \<and> resolveOnFatalError (defaultEnv\<lparr>clientOptions_onFatalError := Some ''flush''\<rparr>)
       = UserCallback ''flush''
   \<and> filter isCallFatal
       (snd (errorHandler 1 (defaultEnv\<lparr>clientOptions_onFatalError := Some ''flush''\<rparr>) ''E1''
          makeErrorHandler)) =
       [CallFatal (UserCallback ''flush'') (Some ''E1'') None]"
proof -
  let ?w = "defaultEnv\<lparr>clientOptions_onFatalError := Some ''flush''\<rparr>"
  have o: "onFatalError (options ?w) = None" "clientOptions_onFatalError ?w = Some ''flush''"
    by (simp_all add: defaultEnv_def)
  have s: "\<not> caughtFirstError makeErrorHandler" "\<not> calledFatalError makeErrorHandler"
    by (simp_all add: makeErrorHandler_def)
  have a: "shouldApplyFatalHandlingLogic ?w"
    by (simp add: shouldApplyFatalHandlingLogic_def defaultEnv_def)
  from onFatalError_resolution [of ?w "''none''" "''flush''" makeErrorHandler 1 "''E1''"] o s a
  show ?thesis
    by simp
qed


end
